theory Spec2Isabelle
  imports Main "HOL-Library.Word"
begin

section \<open>Codec descriptors and the media engine\<close>

text \<open>
  \<^verbatim>\<open>type RTPCodecType int\<close> with the constants \<^verbatim>\<open>RTPCodecTypeAudio = iota + 1\<close> and
  \<^verbatim>\<open>RTPCodecTypeVideo\<close>: a kind is an integer, 1 for audio and 2 for video.
\<close>

type_synonym RTPCodecType = int

abbreviation RTPCodecTypeAudio :: RTPCodecType where
  "RTPCodecTypeAudio \<equiv> 1"

abbreviation RTPCodecTypeVideo :: RTPCodecType where
  "RTPCodecTypeVideo \<equiv> 2"

text \<open>The names of the default codecs.\<close>

abbreviation G722 :: string where "G722 \<equiv> ''G722''"
abbreviation Opus :: string where "Opus \<equiv> ''opus''"
abbreviation VP8 :: string where "VP8 \<equiv> ''VP8''"
abbreviation VP9 :: string where "VP9 \<equiv> ''VP9''"
abbreviation H264 :: string where "H264 \<equiv> ''H264''"

text \<open>
  The packetizers of package \<^verbatim>\<open>codecs\<close> that the constructors attach. They are opaque
  capability objects; the interface value \<^verbatim>\<open>rtp.Payloader\<close> may be nil, which is \<open>None\<close>.
\<close>

datatype Payloader = G722Payloader | OpusPayloader | VP8Payloader | H264Payloader

text \<open>
  \<^verbatim>\<open>RTPCodec\<close> with its embedded \<^verbatim>\<open>RTPCodecCapability\<close>. Two fields of the capability are
  left out, as no operation below reads them and the other fields determine them:
  \<^verbatim>\<open>MimeType\<close> is the text of the kind, a slash and the name, and \<^verbatim>\<open>RTCPFeedback\<close> is nil
  in every descriptor that \<^verbatim>\<open>NewRTPCodec\<close> builds.
\<close>

record RTPCodec =
  ClockRate :: "32 word"
  Channels :: "16 word"
  SDPFmtpLine :: string
  Type :: RTPCodecType
  Name :: string
  PayloadType :: "8 word"
  Payloader :: "Payloader option"

definition NewRTPCodec ::
  "RTPCodecType \<Rightarrow> string \<Rightarrow> 32 word \<Rightarrow> 16 word \<Rightarrow> string \<Rightarrow> 8 word \<Rightarrow> Payloader option
    \<Rightarrow> RTPCodec" where
  "NewRTPCodec codecType name clockrate channels fmtp payloadType payloader =
     \<lparr>ClockRate = clockrate, Channels = channels, SDPFmtpLine = fmtp,
      Type = codecType, Name = name, PayloadType = payloadType, Payloader = payloader\<rparr>"

definition NewRTPG722Codec :: "8 word \<Rightarrow> 32 word \<Rightarrow> RTPCodec" where
  "NewRTPG722Codec payloadType clockrate =
     NewRTPCodec RTPCodecTypeAudio G722 clockrate 0 '''' payloadType (Some G722Payloader)"

definition NewRTPOpusCodec :: "8 word \<Rightarrow> 32 word \<Rightarrow> RTPCodec" where
  "NewRTPOpusCodec payloadType clockrate =
     NewRTPCodec RTPCodecTypeAudio Opus clockrate 2 ''minptime=10;useinbandfec=1''
       payloadType (Some OpusPayloader)"

definition NewRTPVP8Codec :: "8 word \<Rightarrow> 32 word \<Rightarrow> RTPCodec" where
  "NewRTPVP8Codec payloadType clockrate =
     NewRTPCodec RTPCodecTypeVideo VP8 clockrate 0 '''' payloadType (Some VP8Payloader)"

text \<open>The VP9 constructor passes nil as the payloader.\<close>

definition NewRTPVP9Codec :: "8 word \<Rightarrow> 32 word \<Rightarrow> RTPCodec" where
  "NewRTPVP9Codec payloadType clockrate =
     NewRTPCodec RTPCodecTypeVideo VP9 clockrate 0 '''' payloadType None"

definition NewRTPH264Codec :: "8 word \<Rightarrow> 32 word \<Rightarrow> RTPCodec" where
  "NewRTPH264Codec payloadType clockrate =
     NewRTPCodec RTPCodecTypeVideo H264 clockrate 0
       ''level-asymmetry-allowed=1;packetization-mode=1;profile-level-id=42001f''
       payloadType (Some H264Payloader)"

text \<open>
  \<^verbatim>\<open>MediaEngine\<close> holds a slice of descriptors. \<^verbatim>\<open>RegisterCodec\<close> appends to it in place and
  returns the payload type of the descriptor; the model returns the updated engine too.
\<close>

record MediaEngine =
  codecs :: "RTPCodec list"

definition RegisterCodec :: "MediaEngine \<Rightarrow> RTPCodec \<Rightarrow> MediaEngine \<times> 8 word" where
  "RegisterCodec m codec = (m\<lparr>codecs := codecs m @ [codec]\<rparr>, PayloadType codec)"

text \<open>A sequence of register calls on one engine, the returned numbers dropped.\<close>

fun register_all :: "MediaEngine \<Rightarrow> RTPCodec list \<Rightarrow> MediaEngine" where
  "register_all m [] = m"
| "register_all m (codec # rest) = register_all (fst (RegisterCodec m codec)) rest"

text \<open>
  \<^verbatim>\<open>GetCodecsByKind\<close> and \<^verbatim>\<open>GetCodecsByName\<close>: a loop over the engine's slice that appends
  each matching descriptor to a result that starts empty.
\<close>

fun byKind_loop :: "RTPCodecType \<Rightarrow> RTPCodec list \<Rightarrow> RTPCodec list \<Rightarrow> RTPCodec list" where
  "byKind_loop kind acc [] = acc"
| "byKind_loop kind acc (codec # rest) =
     byKind_loop kind (if Type codec = kind then acc @ [codec] else acc) rest"

definition GetCodecsByKind :: "MediaEngine \<Rightarrow> RTPCodecType \<Rightarrow> RTPCodec list" where
  "GetCodecsByKind m kind = byKind_loop kind [] (codecs m)"

fun byName_loop :: "string \<Rightarrow> RTPCodec list \<Rightarrow> RTPCodec list \<Rightarrow> RTPCodec list" where
  "byName_loop codecName acc [] = acc"
| "byName_loop codecName acc (codec # rest) =
     byName_loop codecName (if Name codec = codecName then acc @ [codec] else acc) rest"

definition GetCodecsByName :: "MediaEngine \<Rightarrow> string \<Rightarrow> RTPCodec list" where
  "GetCodecsByName m codecName = byName_loop codecName [] (codecs m)"

section \<open>Resolving a session description\<close>

text \<open>
  The failures of the negotiation functions. Go builds them with \<^verbatim>\<open>fmt.Errorf\<close>; each
  constructor stands for one message and carries its argument:
  \<^item> \<open>UnmarshalError\<close>: the error of \<^verbatim>\<open>sdpsd.Unmarshal\<close>, returned as it is;
  \<^item> \<open>MalformedDescription\<close>: "format parse error";
  \<^item> \<open>UnresolvableCodec pt\<close>: "could not find codec for payload type pt";
  \<^item> \<open>CodecNotFound name\<close>: "no name codec in session description" of \<^verbatim>\<open>preferredCodec\<close>
    and "no name codecs found" of \<^verbatim>\<open>firstCodecOfType\<close>;
  \<^item> \<open>CodecKindNotFound kind\<close>: "no kind codecs found" of \<^verbatim>\<open>firstCodecOfType\<close>.
\<close>

datatype error =
    UnmarshalError string
  | MalformedDescription
  | UnresolvableCodec "8 word"
  | CodecNotFound string
  | CodecKindNotFound RTPCodecType

text \<open>
  What package \<^verbatim>\<open>sdp\<close> gives the resolver: a parsed description is a list of media
  descriptions, each with the format identifiers of its media name, and a codec entry
  has a name, a clock rate and a format parameter line.
\<close>

record sdp_Codec =
  sdp_PayloadType :: "8 word"
  sdp_Name :: string
  sdp_ClockRate :: "32 word"
  sdp_EncodingParameters :: string
  sdp_Fmtp :: string

record MediaDescription =
  Formats :: "string list"

record sdp_SessionDescription =
  MediaDescriptions :: "MediaDescription list"

text \<open>
  The two functions of package \<^verbatim>\<open>sdp\<close> that the resolver calls are parameters of the
  model: the parser of the description text and the lookup of the codec bound to a
  payload type. Each returns its error text on the left.
\<close>

record sdp_package =
  Unmarshal :: "string \<Rightarrow> string + sdp_SessionDescription"
  GetCodecForPayloadType :: "sdp_SessionDescription \<Rightarrow> 8 word \<Rightarrow> string + sdp_Codec"

record SessionDescription =
  SDP :: string

text \<open>
  \<^verbatim>\<open>strconv.Atoi\<close> on a 64-bit platform: an optional sign, then one or more decimal
  digits and nothing else, the value within the range of \<^verbatim>\<open>int\<close>.
\<close>

definition is_digit :: "char \<Rightarrow> bool" where
  "is_digit ch \<longleftrightarrow> 48 \<le> (of_char ch :: nat) \<and> (of_char ch :: nat) \<le> 57"

fun digits_value :: "nat \<Rightarrow> string \<Rightarrow> nat" where
  "digits_value n [] = n"
| "digits_value n (ch # rest) = digits_value (n * 10 + (of_char ch - 48)) rest"

definition Atoi :: "string \<Rightarrow> int option" where
  "Atoi s =
     (case s of
        [] \<Rightarrow> None
      | s0 # s1 \<Rightarrow>
          (let body = (if s0 = CHR ''-'' \<or> s0 = CHR ''+'' then s1 else s) in
           if body = [] \<or> \<not> list_all is_digit body then None
           else
             (let n = int (digits_value 0 body);
                  v = (if s0 = CHR ''-'' then - n else n)
              in if - (2 ^ 63) \<le> v \<and> v < 2 ^ 63 then Some v else None)))"

text \<open>The conversion \<^verbatim>\<open>uint8(pt)\<close> keeps the low eight bits.\<close>

definition uint8 :: "int \<Rightarrow> 8 word" where
  "uint8 pt = word_of_int pt"

text \<open>
  The \<^verbatim>\<open>switch payloadCodec.Name\<close> of \<^verbatim>\<open>PopulateFromSDP\<close>: the descriptor built for a
  known name, \<open>None\<close> for the default branch, which continues with the next format.
\<close>

definition switch_Name :: "sdp_Codec \<Rightarrow> 8 word \<Rightarrow> RTPCodec option" where
  "switch_Name payloadCodec payloadType =
     (let clockRate = sdp_ClockRate payloadCodec;
          parameters = sdp_Fmtp payloadCodec
      in if sdp_Name payloadCodec = G722 then Some (NewRTPG722Codec payloadType clockRate)
         else if sdp_Name payloadCodec = Opus then Some (NewRTPOpusCodec payloadType clockRate)
         else if sdp_Name payloadCodec = VP8
           then Some ((NewRTPVP8Codec payloadType clockRate)\<lparr>SDPFmtpLine := parameters\<rparr>)
         else if sdp_Name payloadCodec = VP9
           then Some ((NewRTPVP9Codec payloadType clockRate)\<lparr>SDPFmtpLine := parameters\<rparr>)
         else if sdp_Name payloadCodec = H264
           then Some ((NewRTPH264Codec payloadType clockRate)\<lparr>SDPFmtpLine := parameters\<rparr>)
         else None)"

text \<open>
  The inner loop over the formats of one media description and the outer loop over the
  media descriptions. The engine is updated in place, so a failure returns the engine
  as the loop left it, together with the error.
\<close>

fun populate_formats ::
  "(8 word \<Rightarrow> string + sdp_Codec) \<Rightarrow> MediaEngine \<Rightarrow> string list \<Rightarrow> MediaEngine \<times> error option"
  where
  "populate_formats getCodec m [] = (m, None)"
| "populate_formats getCodec m (format # rest) =
     (case Atoi format of
        None \<Rightarrow> (m, Some MalformedDescription)
      | Some pt \<Rightarrow>
          (let payloadType = uint8 pt in
           case getCodec payloadType of
             Inl _ \<Rightarrow> (m, Some (UnresolvableCodec payloadType))
           | Inr payloadCodec \<Rightarrow>
               (case switch_Name payloadCodec payloadType of
                  None \<Rightarrow> populate_formats getCodec m rest
                | Some codec \<Rightarrow> populate_formats getCodec (fst (RegisterCodec m codec)) rest)))"

fun populate_media ::
  "(8 word \<Rightarrow> string + sdp_Codec) \<Rightarrow> MediaEngine \<Rightarrow> MediaDescription list
    \<Rightarrow> MediaEngine \<times> error option" where
  "populate_media getCodec m [] = (m, None)"
| "populate_media getCodec m (md # rest) =
     (case populate_formats getCodec m (Formats md) of
        (m', Some err) \<Rightarrow> (m', Some err)
      | (m', None) \<Rightarrow> populate_media getCodec m' rest)"

definition PopulateFromSDP ::
  "sdp_package \<Rightarrow> MediaEngine \<Rightarrow> SessionDescription \<Rightarrow> MediaEngine \<times> error option" where
  "PopulateFromSDP L m sd =
     (case Unmarshal L (SDP sd) of
        Inl err \<Rightarrow> (m, Some (UnmarshalError err))
      | Inr sdpsd \<Rightarrow> populate_media (GetCodecForPayloadType L sdpsd) m (MediaDescriptions sdpsd))"

text \<open>\<^verbatim>\<open>preferredCodec\<close> resolves the description into a fresh engine.\<close>

definition preferredCodec :: "sdp_package \<Rightarrow> string \<Rightarrow> SessionDescription \<Rightarrow> error + RTPCodec" where
  "preferredCodec L codecName sd =
     (case PopulateFromSDP L \<lparr>codecs = []\<rparr> sd of
        (m, Some err) \<Rightarrow> Inl err
      | (m, None) \<Rightarrow>
          (case GetCodecsByName m codecName of
             [] \<Rightarrow> Inl (CodecNotFound codecName)
           | codec # _ \<Rightarrow> Inr codec))"

text \<open>\<^verbatim>\<open>firstCodecOfType\<close> works on an engine that the caller has populated.\<close>

fun firstCodecOfType_loop :: "string \<Rightarrow> RTPCodec list \<Rightarrow> error + 8 word" where
  "firstCodecOfType_loop codecName [] = Inl (CodecNotFound codecName)"
| "firstCodecOfType_loop codecName (c # rest) =
     (if Name c = codecName then Inr (PayloadType c) else firstCodecOfType_loop codecName rest)"

definition firstCodecOfType :: "MediaEngine \<Rightarrow> string \<Rightarrow> RTPCodecType \<Rightarrow> error + 8 word" where
  "firstCodecOfType m codecName kind =
     (let cs = GetCodecsByKind m kind
      in if length cs = 0 then Inl (CodecKindNotFound kind)
         else firstCodecOfType_loop codecName cs)"

section \<open>The forwarding loop\<close>

text \<open>
  The loop of the \<^verbatim>\<open>OnTrack\<close> handler reads from the remote track and writes what it read
  to the local track. Both calls belong to the transport; one iteration of the loop is
  given here by what they return: the read an error or the byte range \<^verbatim>\<open>rtpBuf[:i]\<close> that
  it filled, the write an error or nil. A write error is compared with
  \<^verbatim>\<open>io.ErrClosedPipe\<close>.
\<close>

datatype io_error = ErrClosedPipe | OtherError string

type_synonym iteration = "(io_error + 8 word list) \<times> io_error option"

text \<open>
  The loop ends only by a panic. When the iterations given are used up it is blocked in
  the next read. The result carries the byte ranges passed to \<^verbatim>\<open>localTrack.Write\<close>, in order.
\<close>

datatype loop_state = AwaitingRead | Panicked io_error

fun forwarding_loop :: "iteration list \<Rightarrow> 8 word list list \<Rightarrow> 8 word list list \<times> loop_state" where
  "forwarding_loop [] written = (written, AwaitingRead)"
| "forwarding_loop ((rd, wr) # rest) written =
     (case rd of
        Inl readErr \<Rightarrow> (written, Panicked readErr)
      | Inr pkt \<Rightarrow>
          (case wr of
             None \<Rightarrow> forwarding_loop rest (written @ [pkt])
           | Some err \<Rightarrow>
               if err \<noteq> ErrClosedPipe then (written @ [pkt], Panicked err)
               else forwarding_loop rest (written @ [pkt])))"

text \<open>An iteration after which the loop goes on to the next read.\<close>

fun passes :: "iteration \<Rightarrow> bool" where
  "passes (Inl readErr, wr) = False"
| "passes (Inr pkt, None) = True"
| "passes (Inr pkt, Some err) = (err = ErrClosedPipe)"

fun packets :: "iteration list \<Rightarrow> 8 word list list" where
  "packets [] = []"
| "packets ((Inl readErr, wr) # rest) = packets rest"
| "packets ((Inr pkt, wr) # rest) = pkt # packets rest"

section \<open>The subscriber loop of main\<close>

text \<open>
  The loop at the end of \<^verbatim>\<open>main\<close> takes one offer after the other from the channel. One
  file finds the payload type with \<^verbatim>\<open>preferredCodec\<close>, the other with \<^verbatim>\<open>PopulateFromSDP\<close>
  on a fresh engine followed by \<^verbatim>\<open>firstCodecOfType\<close>. Every error is passed to \<^verbatim>\<open>panic\<close>.
\<close>

definition negotiate_preferredCodec :: "sdp_package \<Rightarrow> SessionDescription \<Rightarrow> error + 8 word" where
  "negotiate_preferredCodec L recvOnlyOffer =
     (case preferredCodec L VP8 recvOnlyOffer of
        Inl err \<Rightarrow> Inl err
      | Inr codec \<Rightarrow> Inr (PayloadType codec))"

definition negotiate_firstCodecOfType :: "sdp_package \<Rightarrow> SessionDescription \<Rightarrow> error + 8 word" where
  "negotiate_firstCodecOfType L recvOnlyOffer =
     (case PopulateFromSDP L \<lparr>codecs = []\<rparr> recvOnlyOffer of
        (m, Some err) \<Rightarrow> Inl err
      | (m, None) \<Rightarrow> firstCodecOfType m VP8 RTPCodecTypeVideo)"

text \<open>
  A panic in \<^verbatim>\<open>main\<close> ends the program, and with it the goroutine of the forwarding
  loop. So the program is either running, with the payload types of the subscriber
  connections that were given the local track so far, or it has exited with the value
  passed to \<^verbatim>\<open>panic\<close>. The calls of the peer connection API that follow the negotiation
  (\<^verbatim>\<open>NewPeerConnection\<close>, \<^verbatim>\<open>AddTrack\<close>, \<^verbatim>\<open>SetRemoteDescription\<close>, \<^verbatim>\<open>CreateAnswer\<close>,
  \<^verbatim>\<open>SetLocalDescription\<close>) are the parameter \<open>connect\<close>, which returns the error of the
  first that fails.
\<close>

datatype program = Running "8 word list" | Exited "error + string"

fun subscriber_loop ::
  "(SessionDescription \<Rightarrow> error + 8 word) \<Rightarrow> (8 word \<Rightarrow> SessionDescription \<Rightarrow> string option)
    \<Rightarrow> SessionDescription list \<Rightarrow> 8 word list \<Rightarrow> program" where
  "subscriber_loop negotiate connect [] subscribers = Running subscribers"
| "subscriber_loop negotiate connect (recvOnlyOffer # rest) subscribers =
     (case negotiate recvOnlyOffer of
        Inl err \<Rightarrow> Exited (Inl err)
      | Inr vp8PayloadType \<Rightarrow>
          (case connect vp8PayloadType recvOnlyOffer of
             Some err \<Rightarrow> Exited (Inr err)
           | None \<Rightarrow> subscriber_loop negotiate connect rest (subscribers @ [vp8PayloadType])))"

section \<open>The description as the loops see it\<close>

text \<open>All format identifiers of a parsed description, in the order the loops visit them.\<close>

definition all_formats :: "sdp_SessionDescription \<Rightarrow> string list" where
  "all_formats sdpsd = concat (map Formats (MediaDescriptions sdpsd))"

text \<open>
  The payload type and the codec entry that the description binds to a format
  identifier: the identifier is an integer and the lookup of its payload type succeeds.
\<close>

definition bound_codec ::
  "(8 word \<Rightarrow> string + sdp_Codec) \<Rightarrow> string \<Rightarrow> (8 word \<times> sdp_Codec) option" where
  "bound_codec getCodec format =
     (case Atoi format of
        None \<Rightarrow> None
      | Some pt \<Rightarrow>
          (case getCodec (uint8 pt) of
             Inl _ \<Rightarrow> None
           | Inr payloadCodec \<Rightarrow> Some (uint8 pt, payloadCodec)))"

definition resolvable :: "(8 word \<Rightarrow> string + sdp_Codec) \<Rightarrow> string \<Rightarrow> bool" where
  "resolvable getCodec format \<longleftrightarrow> bound_codec getCodec format \<noteq> None"

text \<open>A format identifier advertises a codec name when it is bound to an entry of that name.\<close>

definition advertises :: "(8 word \<Rightarrow> string + sdp_Codec) \<Rightarrow> string \<Rightarrow> string \<Rightarrow> bool" where
  "advertises getCodec codecName format =
     (case bound_codec getCodec format of
        None \<Rightarrow> False
      | Some (payloadType, payloadCodec) \<Rightarrow> sdp_Name payloadCodec = codecName)"

definition known_names :: "string list" where
  "known_names = [G722, Opus, VP8, VP9, H264]"

text \<open>The bindings of the formats with a known name, in the order of the formats.\<close>

definition known_bindings ::
  "(8 word \<Rightarrow> string + sdp_Codec) \<Rightarrow> string list \<Rightarrow> (8 word \<times> sdp_Codec) list" where
  "known_bindings getCodec formats =
     List.map_filter
       (\<lambda>format. case bound_codec getCodec format of
            None \<Rightarrow> None
          | Some (payloadType, payloadCodec) \<Rightarrow>
              if sdp_Name payloadCodec \<in> set known_names then Some (payloadType, payloadCodec)
              else None)
       formats"

text \<open>The descriptors that the switch builds for a list of formats, in their order.\<close>

definition resolved :: "(8 word \<Rightarrow> string + sdp_Codec) \<Rightarrow> string list \<Rightarrow> RTPCodec list" where
  "resolved getCodec formats =
     List.map_filter
       (\<lambda>format. case bound_codec getCodec format of
            None \<Rightarrow> None
          | Some (payloadType, payloadCodec) \<Rightarrow> switch_Name payloadCodec payloadType)
       formats"

text \<open>The error that a format identifier without a binding raises.\<close>

definition format_error :: "string \<Rightarrow> error" where
  "format_error format =
     (case Atoi format of
        None \<Rightarrow> MalformedDescription
      | Some pt \<Rightarrow> UnresolvableCodec (uint8 pt))"

definition first_error :: "string list \<Rightarrow> error option" where
  "first_error formats = (case formats of [] \<Rightarrow> None | format # _ \<Rightarrow> Some (format_error format))"

text \<open>The format parameter line that a registered descriptor carries for a binding.\<close>

definition carried_fmtp :: "sdp_Codec \<Rightarrow> string" where
  "carried_fmtp payloadCodec =
     (if sdp_Name payloadCodec = G722 then ''''
      else if sdp_Name payloadCodec = Opus then ''minptime=10;useinbandfec=1''
      else sdp_Fmtp payloadCodec)"

section \<open>A small stand-in for package sdp\<close>

text \<open>
  For concrete runs: the parser knows a table of description texts, and the codec lookup
  a table of payload types.
\<close>

definition table_package ::
  "(string \<times> string list list) list \<Rightarrow> (8 word \<times> sdp_Codec) list \<Rightarrow> sdp_package" where
  "table_package texts bindings =
     \<lparr>Unmarshal = (\<lambda>text. case map_of texts text of
          None \<Rightarrow> Inl ''unmarshal error''
        | Some sections \<Rightarrow> Inr \<lparr>MediaDescriptions = map (\<lambda>fs. \<lparr>Formats = fs\<rparr>) sections\<rparr>),
      GetCodecForPayloadType = (\<lambda>sdpsd payloadType. case map_of bindings payloadType of
          None \<Rightarrow> Inl ''payload type not found''
        | Some payloadCodec \<Rightarrow> Inr payloadCodec)\<rparr>"

definition sdp_entry :: "8 word \<Rightarrow> string \<Rightarrow> 32 word \<Rightarrow> string \<Rightarrow> sdp_Codec" where
  "sdp_entry payloadType name clockRate fmtp =
     \<lparr>sdp_PayloadType = payloadType, sdp_Name = name, sdp_ClockRate = clockRate,
      sdp_EncodingParameters = '''', sdp_Fmtp = fmtp\<rparr>"

text \<open>
  Payload types as a browser offers them: VP8 at 96 and at 100, VP9 at 98, opus at 111
  with a stereo parameter, and two names the engine does not know.
\<close>

definition example_bindings :: "(8 word \<times> sdp_Codec) list" where
  "example_bindings =
     [(96, sdp_entry 96 VP8 90000 ''''),
      (97, sdp_entry 97 ''rtx'' 90000 ''apt=96''),
      (98, sdp_entry 98 VP9 90000 ''profile-id=0''),
      (100, sdp_entry 100 VP8 90000 ''''),
      (111, sdp_entry 111 Opus 48000 ''minptime=10;useinbandfec=1;stereo=1''),
      (126, sdp_entry 126 ''telephone-event'' 8000 '''')]"

definition example_texts :: "(string \<times> string list list) list" where
  "example_texts =
     [(''audio and video'', [[''111'', ''126''], [''97'', ''98'', ''96'', ''100'']]),
      (''video at 100'', [[''100'', ''97'']]),
      (''audio only'', [[''111'']]),
      (''vp9 only'', [[''98'']]),
      (''two video sections'', [[''96''], [''96'']]),
      (''unbound then malformed'', [[''99'', ''x'']]),
      (''malformed'', [[''96'', ''x'']])]"

definition example_package :: sdp_package where
  "example_package = table_package example_texts example_bindings"

definition connect_ok :: "8 word \<Rightarrow> SessionDescription \<Rightarrow> string option" where
  "connect_ok payloadType offer = None"

section \<open>Lookups keep the registration order\<close>

lemma byKind_loop_filter:
  "byKind_loop kind acc cs = acc @ filter (\<lambda>c. Type c = kind) cs"
  by (induction cs arbitrary: acc) simp_all

lemma byName_loop_filter:
  "byName_loop codecName acc cs = acc @ filter (\<lambda>c. Name c = codecName) cs"
  by (induction cs arbitrary: acc) simp_all

lemma GetCodecsByKind_filter:
  "GetCodecsByKind m kind = filter (\<lambda>c. Type c = kind) (codecs m)"
  by (simp add: GetCodecsByKind_def byKind_loop_filter)

lemma GetCodecsByName_filter:
  "GetCodecsByName m codecName = filter (\<lambda>c. Name c = codecName) (codecs m)"
  by (simp add: GetCodecsByName_def byName_loop_filter)

lemma codecs_register_all: "codecs (register_all m cs) = codecs m @ cs"
  by (induction cs arbitrary: m) (simp_all add: RegisterCodec_def)

section \<open>What the resolver computes\<close>

lemma switch_Name_None: "switch_Name c p = None \<longleftrightarrow> sdp_Name c \<notin> set known_names"
  by (simp add: switch_Name_def known_names_def Let_def)

lemma switch_Name_fields:
  assumes "switch_Name c p = Some d"
  shows "Name d = sdp_Name c" and "PayloadType d = p" and "ClockRate d = sdp_ClockRate c"
    and "SDPFmtpLine d = carried_fmtp c" and "sdp_Name c \<in> set known_names"
  using assms
  by (auto simp: switch_Name_def known_names_def carried_fmtp_def Let_def NewRTPCodec_def
      NewRTPG722Codec_def NewRTPOpusCodec_def NewRTPVP8Codec_def NewRTPVP9Codec_def
      NewRTPH264Codec_def split: if_splits)

lemma switch_Name_kind:
  assumes "switch_Name c p = Some d"
  shows "Type d = (if Name d = G722 \<or> Name d = Opus then RTPCodecTypeAudio else RTPCodecTypeVideo)"
  using assms
  by (auto simp: switch_Name_def Let_def NewRTPCodec_def
      NewRTPG722Codec_def NewRTPOpusCodec_def NewRTPVP8Codec_def NewRTPVP9Codec_def
      NewRTPH264Codec_def split: if_splits)

lemma switch_Name_payloader:
  assumes "switch_Name c p = Some d"
  shows "Payloader d =
     (if Name d = G722 then Some G722Payloader
      else if Name d = Opus then Some OpusPayloader
      else if Name d = VP8 then Some VP8Payloader
      else if Name d = VP9 then None
      else Some H264Payloader)"
  using assms
  by (auto simp: switch_Name_def Let_def NewRTPCodec_def
      NewRTPG722Codec_def NewRTPOpusCodec_def NewRTPVP8Codec_def NewRTPVP9Codec_def
      NewRTPH264Codec_def split: if_splits)

lemma resolved_Nil: "resolved gc [] = []"
  by (simp add: resolved_def map_filter_simps)

lemma resolved_Cons:
  "resolved gc (f # fs) =
     (case bound_codec gc f of
        None \<Rightarrow> resolved gc fs
      | Some (p, c) \<Rightarrow> (case switch_Name c p of None \<Rightarrow> resolved gc fs | Some d \<Rightarrow> d # resolved gc fs))"
  by (simp add: resolved_def map_filter_simps split: option.splits)

lemma resolved_append: "resolved gc (xs @ ys) = resolved gc xs @ resolved gc ys"
  by (simp add: resolved_def map_filter_def)

lemma populate_formats_char:
  "populate_formats gc m fs =
     (m\<lparr>codecs := codecs m @ resolved gc (takeWhile (resolvable gc) fs)\<rparr>,
      first_error (dropWhile (resolvable gc) fs))"
proof (induction fs arbitrary: m)
  case Nil
  show ?case by (simp add: resolved_Nil first_error_def)
next
  case (Cons f fs)
  show ?case
  proof (cases "bound_codec gc f")
    case None
    then have nr: "\<not> resolvable gc f" by (simp add: resolvable_def)
    from None show ?thesis
      by (auto simp: nr resolved_Nil first_error_def format_error_def bound_codec_def Let_def
          split: option.splits sum.splits)
  next
    case (Some b)
    then obtain p c where b: "bound_codec gc f = Some (p, c)" by (cases b) auto
    then have r: "resolvable gc f" by (simp add: resolvable_def)
    from b obtain pt where pt: "Atoi f = Some pt" "uint8 pt = p" "gc p = Inr c"
      by (auto simp: bound_codec_def split: option.splits sum.splits)
    show ?thesis
      using pt b r
      by (cases "switch_Name c p") (simp_all add: Cons.IH resolved_Cons RegisterCodec_def Let_def)
  qed
qed

lemma populate_formats_append:
  "populate_formats gc m (xs @ ys) =
     (case populate_formats gc m xs of
        (m', Some e) \<Rightarrow> (m', Some e)
      | (m', None) \<Rightarrow> populate_formats gc m' ys)"
  by (induction xs arbitrary: m) (simp_all add: Let_def split: option.splits sum.splits)

lemma populate_media_concat:
  "populate_media gc m mds = populate_formats gc m (concat (map Formats mds))"
  by (induction mds arbitrary: m) (simp_all add: populate_formats_append split: prod.splits option.splits)

lemma PopulateFromSDP_char:
  assumes "Unmarshal L (SDP sd) = Inr sdpsd"
  shows "PopulateFromSDP L m sd =
     (m\<lparr>codecs := codecs m @
          resolved (GetCodecForPayloadType L sdpsd)
            (takeWhile (resolvable (GetCodecForPayloadType L sdpsd)) (all_formats sdpsd))\<rparr>,
      first_error (dropWhile (resolvable (GetCodecForPayloadType L sdpsd)) (all_formats sdpsd)))"
  using assms
  by (simp add: PopulateFromSDP_def populate_media_concat populate_formats_char all_formats_def)

lemma first_error_None: "first_error (dropWhile P fs) = None \<longleftrightarrow> (\<forall>f\<in>set fs. P f)"
  by (induction fs) (simp_all add: first_error_def)

section \<open>Claims\<close>

text \<open>
  C9: for every registry and every kind or name, \<^verbatim>\<open>GetCodecsByKind\<close> and \<^verbatim>\<open>GetCodecsByName\<close>
  return exactly the descriptors of that kind or name, in the order in which they were
  registered.
\<close>

theorem lookups_in_registration_order:
  "GetCodecsByKind m kind = filter (\<lambda>c. Type c = kind) (codecs m)
   \<and> GetCodecsByName m codecName = filter (\<lambda>c. Name c = codecName) (codecs m)
   \<and> GetCodecsByKind (register_all \<lparr>codecs = []\<rparr> cs) kind = filter (\<lambda>c. Type c = kind) cs
   \<and> GetCodecsByName (register_all \<lparr>codecs = []\<rparr> cs) codecName
       = filter (\<lambda>c. Name c = codecName) cs"
  by (simp add: GetCodecsByKind_filter GetCodecsByName_filter codecs_register_all)

lemma PopulateFromSDP_Unmarshal:
  assumes "PopulateFromSDP L m sd = (m', None)"
  obtains sdpsd where "Unmarshal L (SDP sd) = Inr sdpsd"
  using assms by (cases "Unmarshal L (SDP sd)") (simp_all add: PopulateFromSDP_def)

lemma PopulateFromSDP_success:
  assumes "Unmarshal L (SDP sd) = Inr sdpsd" and "PopulateFromSDP L m sd = (m', None)"
  shows "codecs m' = codecs m @ resolved (GetCodecForPayloadType L sdpsd) (all_formats sdpsd)"
    and "\<forall>f\<in>set (all_formats sdpsd). resolvable (GetCodecForPayloadType L sdpsd) f"
proof -
  let ?gc = "GetCodecForPayloadType L sdpsd"
  from assms have e: "first_error (dropWhile (resolvable ?gc) (all_formats sdpsd)) = None"
    and m': "m' = m\<lparr>codecs := codecs m @ resolved ?gc (takeWhile (resolvable ?gc) (all_formats sdpsd))\<rparr>"
    by (simp_all add: PopulateFromSDP_char)
  from e show all: "\<forall>f\<in>set (all_formats sdpsd). resolvable ?gc f"
    by (simp add: first_error_None)
  then have "takeWhile (resolvable ?gc) (all_formats sdpsd) = all_formats sdpsd"
    by (simp add: takeWhile_eq_all_conv)
  with m' show "codecs m' = codecs m @ resolved ?gc (all_formats sdpsd)" by simp
qed

lemma resolved_from_switch:
  "d \<in> set (resolved gc fs) \<Longrightarrow> \<exists>f p c. f \<in> set fs \<and> bound_codec gc f = Some (p, c) \<and> switch_Name c p = Some d"
  by (induction fs) (auto simp: resolved_Nil resolved_Cons split: option.splits)

lemma filter_resolved_not_advertised:
  assumes "\<forall>g\<in>set fs. \<not> advertises gc n g"
  shows "filter (\<lambda>d. Name d = n) (resolved gc fs) = []"
proof -
  have "Name d \<noteq> n" if "d \<in> set (resolved gc fs)" for d
  proof -
    from resolved_from_switch [OF that] obtain f p c
      where f: "f \<in> set fs" "bound_codec gc f = Some (p, c)" "switch_Name c p = Some d" by blast
    from f(3) have "Name d = sdp_Name c" by (rule switch_Name_fields)
    moreover from assms f(1,2) have "sdp_Name c \<noteq> n" by (auto simp: advertises_def)
    ultimately show ?thesis by simp
  qed
  then show ?thesis by (simp add: filter_empty_conv)
qed

lemma firstCodecOfType_loop_filter:
  "firstCodecOfType_loop n cs =
     (case filter (\<lambda>c. Name c = n) cs of
        [] \<Rightarrow> Inl (CodecNotFound n)
      | c # _ \<Rightarrow> Inr (PayloadType c))"
  by (induction cs) simp_all

lemma firstCodecOfType_char:
  assumes "\<forall>c\<in>set (codecs m). Name c = n \<longrightarrow> Type c = k"
  shows "firstCodecOfType m n k =
     (case filter (\<lambda>c. Name c = n) (codecs m) of
        [] \<Rightarrow> if filter (\<lambda>c. Type c = k) (codecs m) = [] then Inl (CodecKindNotFound k)
              else Inl (CodecNotFound n)
      | c # _ \<Rightarrow> Inr (PayloadType c))"
proof -
  have eq: "filter (\<lambda>c. Name c = n) (filter (\<lambda>c. Type c = k) (codecs m))
      = filter (\<lambda>c. Name c = n) (codecs m)"
    using assms by (auto intro: filter_cong)
  show ?thesis
  proof (cases "filter (\<lambda>c. Type c = k) (codecs m) = []")
    case True
    with eq have "filter (\<lambda>c. Name c = n) (codecs m) = []" by simp
    with True show ?thesis by (simp add: firstCodecOfType_def GetCodecsByKind_filter)
  next
    case False
    then have "firstCodecOfType m n k = firstCodecOfType_loop n (filter (\<lambda>c. Type c = k) (codecs m))"
      by (simp add: firstCodecOfType_def GetCodecsByKind_filter)
    also have "\<dots> = (case filter (\<lambda>c. Name c = n) (filter (\<lambda>c. Type c = k) (codecs m)) of
        [] \<Rightarrow> Inl (CodecNotFound n) | c # _ \<Rightarrow> Inr (PayloadType c))"
      by (rule firstCodecOfType_loop_filter)
    finally have "firstCodecOfType m n k = (case filter (\<lambda>c. Name c = n) (codecs m) of
        [] \<Rightarrow> Inl (CodecNotFound n) | c # _ \<Rightarrow> Inr (PayloadType c))"
      by (simp only: eq)
    with False show ?thesis by (simp split: list.splits)
  qed
qed

lemma preferredCodec_char:
  assumes "PopulateFromSDP L \<lparr>codecs = []\<rparr> sd = (m, None)"
  shows "preferredCodec L n sd =
     (case filter (\<lambda>c. Name c = n) (codecs m) of
        [] \<Rightarrow> Inl (CodecNotFound n)
      | c # _ \<Rightarrow> Inr c)"
  using assms by (simp add: preferredCodec_def GetCodecsByName_filter)

lemma resolved_VP8_video:
  assumes "PopulateFromSDP L \<lparr>codecs = []\<rparr> sd = (m, None)"
  shows "\<forall>c\<in>set (codecs m). Name c = VP8 \<longrightarrow> Type c = RTPCodecTypeVideo"
proof
  fix d assume d: "d \<in> set (codecs m)"
  from assms obtain sdpsd where u: "Unmarshal L (SDP sd) = Inr sdpsd"
    by (rule PopulateFromSDP_Unmarshal)
  from PopulateFromSDP_success(1) [OF u assms] d
  have "d \<in> set (resolved (GetCodecForPayloadType L sdpsd) (all_formats sdpsd))" by simp
  from resolved_from_switch [OF this] obtain p c where "switch_Name c p = Some d" by blast
  from switch_Name_kind [OF this]
  show "Name d = VP8 \<longrightarrow> Type d = RTPCodecTypeVideo" by auto
qed

text \<open>
  C1: for a description that resolves without error and in which some format is bound
  to the name VP8, \<^verbatim>\<open>preferredCodec\<close> and \<^verbatim>\<open>firstCodecOfType\<close> both return the payload type
  of the first format, in the order of the description, that is bound to VP8. The
  payload type is the format's number as \<^verbatim>\<open>uint8\<close> converts it, which is the number itself
  from 0 to 255.
\<close>

theorem preferred_VP8_is_first_advertised:
  assumes "Unmarshal L (SDP sd) = Inr sdpsd"
    and "PopulateFromSDP L \<lparr>codecs = []\<rparr> sd = (m, None)"
    and "all_formats sdpsd = pre @ f # post"
    and "\<forall>g\<in>set pre. \<not> advertises (GetCodecForPayloadType L sdpsd) VP8 g"
    and "Atoi f = Some P"
    and "GetCodecForPayloadType L sdpsd (uint8 P) = Inr c"
    and "sdp_Name c = VP8"
  shows "(\<exists>codec. preferredCodec L VP8 sd = Inr codec \<and> PayloadType codec = uint8 P)
    \<and> firstCodecOfType m VP8 RTPCodecTypeVideo = Inr (uint8 P)
    \<and> (0 \<le> P \<and> P \<le> 255 \<longrightarrow> uint (uint8 P) = P)"
proof -
  let ?gc = "GetCodecForPayloadType L sdpsd"
  let ?d = "(NewRTPVP8Codec (uint8 P) (sdp_ClockRate c))\<lparr>SDPFmtpLine := sdp_Fmtp c\<rparr>"
  have b: "bound_codec ?gc f = Some (uint8 P, c)"
    using assms(5,6) by (simp add: bound_codec_def)
  have sw: "switch_Name c (uint8 P) = Some ?d"
    using assms(7) by (simp add: switch_Name_def)
  have N: "Name ?d = VP8" and PT: "PayloadType ?d = uint8 P"
    by (simp_all add: NewRTPVP8Codec_def NewRTPCodec_def)
  have "codecs m = resolved ?gc (pre @ f # post)"
    using PopulateFromSDP_success(1) [OF assms(1,2)] assms(3) by simp
  then have cm: "codecs m = resolved ?gc pre @ ?d # resolved ?gc post"
    using b sw by (simp add: resolved_append resolved_Cons)
  have "filter (\<lambda>d. Name d = VP8) (codecs m) = ?d # filter (\<lambda>d. Name d = VP8) (resolved ?gc post)"
    unfolding cm using filter_resolved_not_advertised [OF assms(4)] N by simp
  then have 1: "preferredCodec L VP8 sd = Inr ?d"
    and 2: "firstCodecOfType m VP8 RTPCodecTypeVideo = Inr (PayloadType ?d)"
    using preferredCodec_char [OF assms(2), of VP8]
      firstCodecOfType_char [OF resolved_VP8_video [OF assms(2)]]
    by simp_all
  have 3: "0 \<le> P \<and> P \<le> 255 \<longrightarrow> uint (uint8 P) = P"
    by (simp add: uint8_def uint_word_of_int take_bit_int_eq_self)
  from 1 2 3 PT show ?thesis by simp
qed

theorem preferred_VP8_is_first_advertised_witness:
  "Unmarshal example_package (SDP \<lparr>SDP = ''audio and video''\<rparr>)
      = Inr \<lparr>MediaDescriptions = [\<lparr>Formats = [''111'', ''126'']\<rparr>,
               \<lparr>Formats = [''97'', ''98'', ''96'', ''100'']\<rparr>]\<rparr>
   \<and> (\<exists>codec. preferredCodec example_package VP8 \<lparr>SDP = ''audio and video''\<rparr> = Inr codec
         \<and> PayloadType codec = 96)
   \<and> firstCodecOfType
        (fst (PopulateFromSDP example_package \<lparr>codecs = []\<rparr> \<lparr>SDP = ''audio and video''\<rparr>))
        VP8 RTPCodecTypeVideo = Inr 96"
proof -
  let ?sd = "\<lparr>SDP = ''audio and video''\<rparr>"
  let ?sdpsd = "\<lparr>MediaDescriptions = [\<lparr>Formats = [''111'', ''126'']\<rparr>,
               \<lparr>Formats = [''97'', ''98'', ''96'', ''100'']\<rparr>]\<rparr>"
  let ?m = "fst (PopulateFromSDP example_package \<lparr>codecs = []\<rparr> ?sd)"
  have h1: "Unmarshal example_package (SDP ?sd) = Inr ?sdpsd" by code_simp
  have h2: "PopulateFromSDP example_package \<lparr>codecs = []\<rparr> ?sd = (?m, None)" by code_simp
  have h3: "all_formats ?sdpsd = [''111'', ''126'', ''97'', ''98''] @ ''96'' # [''100'']"
    by code_simp
  have h4: "\<forall>g\<in>set [''111'', ''126'', ''97'', ''98''].
      \<not> advertises (GetCodecForPayloadType example_package ?sdpsd) VP8 g" by code_simp
  have h5: "Atoi ''96'' = Some 96" by code_simp
  have h6: "GetCodecForPayloadType example_package ?sdpsd (uint8 96)
      = Inr (sdp_entry 96 VP8 90000 [])"
    by code_simp
  have h7: "sdp_Name (sdp_entry 96 VP8 90000 []) = VP8" by code_simp
  have u: "uint8 96 = 96" by (simp add: uint8_def)
  show ?thesis
    using preferred_VP8_is_first_advertised [OF h1 h2 h3 h4 h5 h6 h7] h1 by (simp add: u)
qed

text \<open>
  C8: when the registry resolved from a description holds no descriptor named VP8,
  \<^verbatim>\<open>preferredCodec\<close> fails with its codec-not-found error, and \<^verbatim>\<open>firstCodecOfType\<close> fails
  with one of its two codec-not-found errors; neither returns a payload type.
\<close>

theorem no_VP8_entry_fails:
  assumes "PopulateFromSDP L \<lparr>codecs = []\<rparr> sd = (m, None)"
    and "\<forall>c\<in>set (codecs m). Name c \<noteq> VP8"
  shows "preferredCodec L VP8 sd = Inl (CodecNotFound VP8)
    \<and> (firstCodecOfType m VP8 RTPCodecTypeVideo = Inl (CodecNotFound VP8)
       \<or> firstCodecOfType m VP8 RTPCodecTypeVideo = Inl (CodecKindNotFound RTPCodecTypeVideo))"
proof -
  from assms(2) have "filter (\<lambda>c. Name c = VP8) (codecs m) = []"
    by (simp add: filter_empty_conv)
  then show ?thesis
    using preferredCodec_char [OF assms(1), of VP8]
      firstCodecOfType_char [OF resolved_VP8_video [OF assms(1)]]
    by simp
qed

theorem no_VP8_entry_fails_witness:
  "PopulateFromSDP example_package \<lparr>codecs = []\<rparr> \<lparr>SDP = ''audio only''\<rparr>
      = (\<lparr>codecs = [NewRTPOpusCodec 111 48000]\<rparr>, None)
   \<and> preferredCodec example_package VP8 \<lparr>SDP = ''audio only''\<rparr> = Inl (CodecNotFound VP8)
   \<and> firstCodecOfType \<lparr>codecs = [NewRTPOpusCodec 111 48000]\<rparr> VP8 RTPCodecTypeVideo
       = Inl (CodecKindNotFound RTPCodecTypeVideo)"
proof -
  let ?m = "\<lparr>codecs = [NewRTPOpusCodec 111 48000]\<rparr>"
  have h1: "PopulateFromSDP example_package \<lparr>codecs = []\<rparr> \<lparr>SDP = ''audio only''\<rparr> = (?m, None)"
    by code_simp
  have h2: "\<forall>c\<in>set (codecs ?m). Name c \<noteq> VP8" by code_simp
  have k: "firstCodecOfType ?m VP8 RTPCodecTypeVideo \<noteq> Inl (CodecNotFound VP8)" by code_simp
  show ?thesis using no_VP8_entry_fails [OF h1 h2] h1 k by simp
qed

text \<open>
  C10: on every registry that \<^verbatim>\<open>PopulateFromSDP\<close> produces from an empty engine,
  \<^verbatim>\<open>firstCodecOfType\<close> for VP8 among the video codecs and \<^verbatim>\<open>preferredCodec\<close> for VP8 either
  both fail or both succeed with the same payload type.
\<close>

theorem VP8_selections_agree:
  assumes "PopulateFromSDP L \<lparr>codecs = []\<rparr> sd = (m, None)"
  shows "isl (firstCodecOfType m VP8 RTPCodecTypeVideo) = isl (preferredCodec L VP8 sd)
    \<and> (\<forall>codec. preferredCodec L VP8 sd = Inr codec
          \<longrightarrow> firstCodecOfType m VP8 RTPCodecTypeVideo = Inr (PayloadType codec))"
  using preferredCodec_char [OF assms, of VP8]
    firstCodecOfType_char [OF resolved_VP8_video [OF assms]]
  by (simp split: list.splits)

theorem VP8_selections_agree_witness:
  "isl (firstCodecOfType
          (fst (PopulateFromSDP example_package \<lparr>codecs = []\<rparr> \<lparr>SDP = ''video at 100''\<rparr>))
          VP8 RTPCodecTypeVideo)
     = isl (preferredCodec example_package VP8 \<lparr>SDP = ''video at 100''\<rparr>)
   \<and> preferredCodec example_package VP8 \<lparr>SDP = ''video at 100''\<rparr> = Inr (NewRTPVP8Codec 100 90000)
   \<and> firstCodecOfType
        (fst (PopulateFromSDP example_package \<lparr>codecs = []\<rparr> \<lparr>SDP = ''video at 100''\<rparr>))
        VP8 RTPCodecTypeVideo = Inr 100"
proof -
  let ?sd = "\<lparr>SDP = ''video at 100''\<rparr>"
  let ?m = "fst (PopulateFromSDP example_package \<lparr>codecs = []\<rparr> ?sd)"
  have h1: "PopulateFromSDP example_package \<lparr>codecs = []\<rparr> ?sd = (?m, None)" by code_simp
  have p: "preferredCodec example_package VP8 ?sd = Inr (NewRTPVP8Codec 100 90000)" by code_simp
  have q: "PayloadType (NewRTPVP8Codec 100 90000) = 100"
    by (simp add: NewRTPVP8Codec_def NewRTPCodec_def)
  show ?thesis using VP8_selections_agree [OF h1] p q by simp
qed

end
